theory Spec2Isabelle
  imports Complex_Main
begin

section \<open>Floating-point values\<close>

text \<open>
  Tensor elements and Python floats: a finite value, given by the real number it
  denotes, an infinity or NaN. The sign of zero is not modelled.
\<close>

datatype flt = Finite real | PosInf | NegInf | NaN

fun is_finite :: "flt \<Rightarrow> bool" where
  "is_finite (Finite a) = True"
| "is_finite _ = False"

fun isnan :: "flt \<Rightarrow> bool" where
  "isnan NaN = True"
| "isnan _ = False"

fun isinf :: "flt \<Rightarrow> bool" where
  "isinf PosInf = True"
| "isinf NegInf = True"
| "isinf _ = False"

definition inf_signed :: "bool \<Rightarrow> flt" where
  "inf_signed positive = (if positive then PosInf else NegInf)"

text \<open>
  A floating-point format (float16, float32, ...) is given by its rounding: the value
  that the format stores for an exact result \<open>a\<close>. That is a finite value of the
  format near \<open>a\<close>, or an infinity when \<open>a\<close> lies beyond its largest finite value.
  Nothing else is fixed about a format but that it holds 0 and 1, so what is proved
  holds for each of them.
\<close>

typedef dtype = "{r :: real \<Rightarrow> flt. r 0 = Finite 0 \<and> r 1 = Finite 1}"
  by (rule exI [of _ Finite]) simp

setup_lifting type_definition_dtype

lift_definition round_to :: "dtype \<Rightarrow> real \<Rightarrow> flt" is "\<lambda>r. r" .

text \<open>
  Two formats to run the definitions on: one that is wide enough for nothing to be
  rounded, and one that stores every value up to its largest finite value \<open>M\<close> as it
  is and overflows beyond.
\<close>

lift_definition exact :: dtype is Finite
  by simp

lift_definition saturating :: "real \<Rightarrow> dtype" is
  "\<lambda>M a. if 1 \<le> M \<and> M < \<bar>a\<bar> then inf_signed (0 < a) else Finite a"
  by auto

text \<open>
  The arithmetic of a format \<open>d\<close>: an operation on finite values rounds its exact
  result; the other cases follow IEEE 754.
\<close>

fun fneg :: "flt \<Rightarrow> flt" where
  "fneg (Finite a) = Finite (- a)"
| "fneg PosInf = NegInf"
| "fneg NegInf = PosInf"
| "fneg NaN = NaN"

fun fadd :: "dtype \<Rightarrow> flt \<Rightarrow> flt \<Rightarrow> flt" where
  "fadd d (Finite a) (Finite b) = round_to d (a + b)"
| "fadd d NaN y = NaN"
| "fadd d x NaN = NaN"
| "fadd d PosInf NegInf = NaN"
| "fadd d NegInf PosInf = NaN"
| "fadd d PosInf y = PosInf"
| "fadd d NegInf y = NegInf"
| "fadd d (Finite a) y = y"

definition fsub :: "dtype \<Rightarrow> flt \<Rightarrow> flt \<Rightarrow> flt" where
  "fsub d x y = fadd d x (fneg y)"

text \<open>An infinity times a finite value: NaN at zero, else the sign rule.\<close>

fun fmul :: "dtype \<Rightarrow> flt \<Rightarrow> flt \<Rightarrow> flt" where
  "fmul d (Finite a) (Finite b) = round_to d (a * b)"
| "fmul d NaN y = NaN"
| "fmul d x NaN = NaN"
| "fmul d PosInf PosInf = PosInf"
| "fmul d PosInf NegInf = NegInf"
| "fmul d NegInf PosInf = NegInf"
| "fmul d NegInf NegInf = PosInf"
| "fmul d PosInf (Finite b) = (if b = 0 then NaN else inf_signed (0 < b))"
| "fmul d NegInf (Finite b) = (if b = 0 then NaN else inf_signed (b < 0))"
| "fmul d (Finite a) PosInf = (if a = 0 then NaN else inf_signed (0 < a))"
| "fmul d (Finite a) NegInf = (if a = 0 then NaN else inf_signed (a < 0))"

text \<open>Division; a zero divisor is taken as positive zero.\<close>

fun fdiv :: "dtype \<Rightarrow> flt \<Rightarrow> flt \<Rightarrow> flt" where
  "fdiv d (Finite a) (Finite b) =
     (if b = 0 then (if a = 0 then NaN else inf_signed (0 < a)) else round_to d (a / b))"
| "fdiv d NaN y = NaN"
| "fdiv d x NaN = NaN"
| "fdiv d (Finite a) y = Finite 0"
| "fdiv d PosInf (Finite b) = inf_signed (0 \<le> b)"
| "fdiv d NegInf (Finite b) = inf_signed (b < 0)"
| "fdiv d x y = NaN"

fun fsqrt :: "dtype \<Rightarrow> flt \<Rightarrow> flt" where
  "fsqrt d (Finite a) = (if a < 0 then NaN else round_to d (sqrt a))"
| "fsqrt d PosInf = PosInf"
| "fsqrt d NegInf = NaN"
| "fsqrt d NaN = NaN"

text \<open>
  A Python float made into a value of the format, as \<open>torch.tensor(v, dtype=dtype)\<close>
  does.
\<close>

fun cast :: "dtype \<Rightarrow> flt \<Rightarrow> flt" where
  "cast d (Finite a) = round_to d a"
| "cast d v = v"

text \<open>Comparison \<open>x < y\<close>: false as soon as one side is NaN.\<close>

fun flt_less :: "flt \<Rightarrow> flt \<Rightarrow> bool" where
  "flt_less (Finite a) (Finite b) = (a < b)"
| "flt_less NaN y = False"
| "flt_less x NaN = False"
| "flt_less PosInf y = False"
| "flt_less x PosInf = True"
| "flt_less NegInf NegInf = False"
| "flt_less NegInf y = True"
| "flt_less (Finite a) NegInf = False"

text \<open>\<open>clamp_min\<close>, \<open>clamp_max\<close> and \<open>clamp\<close> of torch: NaN propagates.\<close>

definition clamp_min :: "flt \<Rightarrow> flt \<Rightarrow> flt" where
  "clamp_min x lo = (if isnan x then NaN else if isnan lo then NaN
                     else if flt_less x lo then lo else x)"

definition clamp_max :: "flt \<Rightarrow> flt \<Rightarrow> flt" where
  "clamp_max x hi = (if isnan x then NaN else if isnan hi then NaN
                     else if flt_less hi x then hi else x)"

definition clamp :: "flt \<Rightarrow> flt \<Rightarrow> flt \<Rightarrow> flt" where
  "clamp x lo hi = clamp_max (clamp_min x lo) hi"

definition fsum :: "dtype \<Rightarrow> flt list \<Rightarrow> flt" where
  "fsum d xs = foldl (fadd d) (Finite 0) xs"

text \<open>\<open>mean\<close> of torch: the sum over the count; NaN (0 / 0) on no element.\<close>

definition fmean :: "dtype \<Rightarrow> flt list \<Rightarrow> flt" where
  "fmean d xs = fdiv d (fsum d xs) (Finite (real (length xs)))"

section \<open>Tensors\<close>

text \<open>
  A tensor is its shape, its elements in row-major order and the format of its
  elements. torch keeps \<open>length (elems x) = prod_list (shape x)\<close>; \<open>wf_tensor\<close> states it.
\<close>

record tensor =
  shape :: "nat list"
  elems :: "flt list"
  dtype :: dtype

definition wf_tensor :: "tensor \<Rightarrow> bool" where
  "wf_tensor x = (length (elems x) = prod_list (shape x))"

definition ndim :: "tensor \<Rightarrow> nat" where
  "ndim x = length (shape x)"

text \<open>\<open>x[t]\<close> for \<open>t\<close> within the first axis: the \<open>t\<close>-th block of the elements.\<close>

definition frame_size :: "tensor \<Rightarrow> nat" where
  "frame_size x = prod_list (tl (shape x))"

definition frame :: "tensor \<Rightarrow> nat \<Rightarrow> flt list" where
  "frame x t = take (frame_size x) (drop (t * frame_size x) (elems x))"

text \<open>The element \<open>x[t, b, c]\<close> of a tensor of shape \<open>[T, 5, C]\<close>.\<close>

definition at3 :: "tensor \<Rightarrow> nat \<Rightarrow> nat \<Rightarrow> nat \<Rightarrow> flt" where
  "at3 x t b c = elems x ! ((t * (shape x ! 1) + b) * (shape x ! 2) + c)"

section \<open>HuMoLipsyncSuppress\<close>

text \<open>
  The node reads its presets through \<open>self\<close>, so they are the fields of the
  node object; \<open>HuMoLipsyncSuppress\<close> is the class as the source declares it. The
  presets are Python floats. Tensors are taken to have a floating-point dtype.
\<close>

record humo_node =
  PRESET_GAINS :: "flt list"
  PRESET_EMA_BETA :: flt
  PRESET_PRESERVE_RMS :: bool
  PRESET_ALPHA_MIX :: flt
  PRESET_GLOBAL_GAIN :: flt
  PRESET_CLAMP_STD :: flt

definition HuMoLipsyncSuppress :: humo_node where
  "HuMoLipsyncSuppress =
     \<lparr>PRESET_GAINS = [Finite 4, Finite 4, Finite (1 / 2), Finite (1 / 100), Finite (1 / 100)],
      PRESET_EMA_BETA = Finite (9 / 10),
      PRESET_PRESERVE_RMS = False,
      PRESET_ALPHA_MIX = Finite 1,
      PRESET_GLOBAL_GAIN = Finite 1,
      PRESET_CLAMP_STD = Finite 0\<rparr>"

datatype error =
    MissingKeyError       \<comment> \<open>\<open>ValueError("Missing key 'humo_audio_emb' ...")\<close>\<close>
  | ShapeError "nat list" \<comment> \<open>\<open>ValueError("humo_audio_emb expected shape [T,5,C], got ...")\<close>\<close>
  | AttributeError        \<comment> \<open>the value under the key has no \<open>ndim\<close>: it is not a tensor\<close>
  | TypeError             \<comment> \<open>\<open>dict(image_embeds)\<close> on an object that is not a mapping\<close>
  | RuntimeError          \<comment> \<open>\<open>view(1, 5, 1)\<close> of a gain list that has not 5 entries\<close>
  | UnsupportedFormatError \<comment> \<open>\<open>ValueError("Unsupported audio format: ...")\<close>\<close>
  | TorchError            \<comment> \<open>what \<open>torch.tensor\<close> raises, where the source does not catch it\<close>

subsection \<open>The stages of \<open>apply\<close>\<close>

text \<open>
  Each operation on tensors is done in the format of the tensor and rounds element by
  element. A Python float that the source first makes into a tensor of that format
  (the gains, \<open>beta\<close>, \<open>alpha\<close>) is cast; so is the bound that \<open>clamp_min\<close> stores.
\<close>

text \<open>
  \<open>_rms\<close>: \<open>x.pow(2).mean(dim=-1, keepdim=True).sqrt().clamp_min(eps)\<close>, one value for
  each row of the last axis, in a tensor whose last axis has length 1.
\<close>

definition channels :: "tensor \<Rightarrow> nat \<Rightarrow> flt list" where
  "channels x r = take (last (shape x)) (drop (r * last (shape x)) (elems x))"

definition rms :: "tensor \<Rightarrow> flt \<Rightarrow> tensor" where
  "rms x eps =
     \<lparr>shape = butlast (shape x) @ [1],
      elems = map (\<lambda>r. clamp_min
                          (fsqrt (dtype x)
                             (fmean (dtype x) (map (\<lambda>v. fmul (dtype x) v v) (channels x r))))
                          (cast (dtype x) eps))
                [0..<prod_list (butlast (shape x))],
      dtype = dtype x\<rparr>"

definition eps_default :: flt where
  "eps_default = Finite (1 / 1000000)"

text \<open>
  Lines 76 to 87, the temporal smoothing. The loop runs over \<open>range(1, x.shape[0])\<close>
  with the state \<open>s\<close> and the list \<open>out_seq\<close>; \<open>torch.stack\<close> puts the frames of
  \<open>out_seq\<close> one after the other.
\<close>

definition ema_step :: "dtype \<Rightarrow> flt \<Rightarrow> flt \<Rightarrow> flt list \<Rightarrow> flt list \<Rightarrow> flt list" where
  "ema_step d beta one_m s xt = map2 (fadd d) (map (fmul d beta) s) (map (fmul d one_m) xt)"

fun ema_loop ::
  "flt \<Rightarrow> flt \<Rightarrow> tensor \<Rightarrow> nat list \<Rightarrow> flt list \<Rightarrow> flt list list \<Rightarrow> flt list list" where
  "ema_loop beta one_m x [] s out_seq = out_seq"
| "ema_loop beta one_m x (t # ts) s out_seq =
     (let s' = ema_step (dtype x) beta one_m s (frame x t)
      in ema_loop beta one_m x ts s' (out_seq @ [s']))"

definition ema_smooth :: "humo_node \<Rightarrow> tensor \<Rightarrow> tensor" where
  "ema_smooth self x =
     (if 1 < shape x ! 0 \<and> flt_less (Finite 0) (PRESET_EMA_BETA self) then
        let s = frame x 0;
            beta = cast (dtype x) (PRESET_EMA_BETA self);
            one_m = fsub (dtype x) (Finite 1) beta;
            out_seq = ema_loop beta one_m x [1..<shape x ! 0] s [s]
        in \<lparr>shape = length out_seq # tl (shape x), elems = concat out_seq, dtype = dtype x\<rparr>
      else x)"

text \<open>
  Line 74, \<open>torch.tensor(self.PRESET_GAINS, device=device, dtype=dtype)\<close>, and line 90,
  \<open>x_smooth * gains\<close> with \<open>gains\<close> of shape \<open>[1, 5, 1]\<close>: the element at the flat index
  \<open>i\<close> of a \<open>[T, 5, C]\<close> tensor belongs to the band \<open>(i div C) mod 5\<close>.
\<close>

definition gains_tensor :: "humo_node \<Rightarrow> dtype \<Rightarrow> flt list" where
  "gains_tensor self d = map (cast d) (PRESET_GAINS self)"

definition mul_gains :: "tensor \<Rightarrow> flt list \<Rightarrow> tensor" where
  "mul_gains x_smooth gains =
     x_smooth\<lparr>elems := map (\<lambda>(i, v). fmul (dtype x_smooth) v
                                         (gains ! ((i div (shape x_smooth ! 2)) mod 5)))
                          (enumerate 0 (elems x_smooth))\<rparr>"

text \<open>
  Lines 94 to 96: \<open>x_edit * (rms_orig / rms_edit)\<close>, the ratio of shape \<open>[T, 5, 1]\<close>
  broadcast along the channels: the element at the flat index \<open>i\<close> takes the ratio of
  the row \<open>i div C\<close>.
\<close>

definition preserve_rms :: "tensor \<Rightarrow> tensor \<Rightarrow> tensor" where
  "preserve_rms x_orig x_edit =
     (let rms_orig = rms x_orig eps_default;
          rms_edit = rms x_edit eps_default;
          ratio = map2 (fdiv (dtype x_edit)) (elems rms_orig) (elems rms_edit)
      in x_edit\<lparr>elems := map (\<lambda>(i, v). fmul (dtype x_edit) v (ratio ! (i div (shape x_edit ! 2))))
                             (enumerate 0 (elems x_edit))\<rparr>)"

text \<open>
  Lines 99 and 100: \<open>alpha\<close> is made a tensor of the format, then
  \<open>(1.0 - alpha) * x_orig + alpha * x_edit\<close>.
\<close>

definition blend :: "flt \<Rightarrow> tensor \<Rightarrow> tensor \<Rightarrow> tensor" where
  "blend alpha x_orig x_edit =
     \<lparr>shape = shape x_orig,
      elems = map2 (\<lambda>a b. fadd (dtype x_orig)
                             (fmul (dtype x_orig) (fsub (dtype x_orig) (Finite 1) alpha) a)
                             (fmul (dtype x_orig) alpha b))
                (elems x_orig) (elems x_edit),
      dtype = dtype x_orig\<rparr>"

text \<open>Lines 103 and 104.\<close>

definition global_gain :: "humo_node \<Rightarrow> tensor \<Rightarrow> tensor" where
  "global_gain self x_mixed =
     (if PRESET_GLOBAL_GAIN self \<noteq> Finite 1
      then x_mixed\<lparr>elems := map (\<lambda>v. fmul (dtype x_mixed) v (PRESET_GLOBAL_GAIN self))
                                (elems x_mixed)\<rparr>
      else x_mixed)"

text \<open>
  Lines 107 to 112. \<open>std\<close> of torch is the sample deviation: the squared deviations
  are summed and divided by \<open>max(0, n - 1)\<close>.
\<close>

definition fstd :: "dtype \<Rightarrow> flt list \<Rightarrow> flt" where
  "fstd d xs =
     (let mean = fmean d xs
      in fsqrt d (fdiv d (fsum d (map (\<lambda>v. fmul d (fsub d v mean) (fsub d v mean)) xs))
                         (Finite (real (length xs - 1)))))"

definition clamp_std :: "humo_node \<Rightarrow> tensor \<Rightarrow> tensor" where
  "clamp_std self x_mixed =
     (if flt_less (Finite 0) (PRESET_CLAMP_STD self) then
        let d = dtype x_mixed;
            mean = fmean d (elems x_mixed);
            std = clamp_min (fstd d (elems x_mixed)) (cast d (Finite (1 / 1000000)));
            lo = fsub d mean (fmul d (PRESET_CLAMP_STD self) std);
            hi = fadd d mean (fmul d (PRESET_CLAMP_STD self) std)
        in x_mixed\<lparr>elems := map (\<lambda>v. clamp v lo hi) (elems x_mixed)\<rparr>
      else x_mixed)"

text \<open>
  Lines 66 to 112 of \<open>apply\<close>: from the tensor \<open>x\<close> read under the key to \<open>x_mixed\<close>.
  No stage writes into a tensor it was given: each builds a new one.
\<close>

definition edit_tensor :: "humo_node \<Rightarrow> tensor \<Rightarrow> error + tensor" where
  "edit_tensor self x =
     (if ndim x \<noteq> 3 then Inl (ShapeError (shape x))
      else if shape x ! 1 \<noteq> 5 then Inl (ShapeError (shape x))
      else if length (PRESET_GAINS self) \<noteq> 5 then Inl RuntimeError
      else
        let x_orig = x;
            gains = gains_tensor self (dtype x);
            x_smooth = ema_smooth self x;
            x_edit = mul_gains x_smooth gains;
            x_edit = (if PRESET_PRESERVE_RMS self then preserve_rms x_orig x_edit else x_edit);
            alpha = cast (dtype x) (PRESET_ALPHA_MIX self);
            x_mixed = blend alpha x_orig x_edit;
            x_mixed = global_gain self x_mixed;
            x_mixed = clamp_std self x_mixed
        in Inr x_mixed)"

subsection \<open>The object store and \<open>apply\<close>\<close>

text \<open>
  Python passes references. The store is the list of the objects allocated so far, an
  address is an index into it, and a new object is appended. A mapping holds, for each
  key, the address of its value. \<open>apply\<close> returns a 1-tuple; the model returns its only
  component.
\<close>

type_synonym addr = nat

datatype obj =
    DictObj "string \<Rightarrow> addr option"
  | TensorObj tensor
  | OtherObj

type_synonym store = "obj list"

definition deref :: "store \<Rightarrow> addr \<Rightarrow> obj option" where
  "deref h a = (if a < length h then Some (h ! a) else None)"

definition alloc :: "store \<Rightarrow> obj \<Rightarrow> store \<times> addr" where
  "alloc h ob = (h @ [ob], length h)"

definition key :: string where
  "key = ''humo_audio_emb''"

definition apply_node :: "humo_node \<Rightarrow> store \<Rightarrow> addr \<Rightarrow> bool \<Rightarrow> error + (store \<times> addr)" where
  "apply_node self h image_embeds enabled =
     (if \<not> enabled then Inr (h, image_embeds)
      else
        (case deref h image_embeds of
           Some (DictObj d) \<Rightarrow>
             (let (h1, embeds) = alloc h (DictObj d)
              in (case d key of
                    None \<Rightarrow> Inl MissingKeyError
                  | Some xa \<Rightarrow>
                      (case deref h1 xa of
                         Some (TensorObj x) \<Rightarrow>
                           (case edit_tensor self x of
                              Inl e \<Rightarrow> Inl e
                            | Inr x_mixed \<Rightarrow>
                                (let (h2, xm) = alloc h1 (TensorObj x_mixed)
                                 in Inr (h2[embeds := DictObj (d(key \<mapsto> xm))], embeds)))
                       | _ \<Rightarrow> Inl AttributeError)))
         | _ \<Rightarrow> Inl TypeError))"

section \<open>HuMoAudioThresholdSwitcher\<close>

text \<open>
  The audio input by its run-time type, as \<open>_convert_to_tensor\<close> inspects it with
  \<open>isinstance\<close>. A tensor or an array holds its elements as read after \<open>.float()\<close>, and
  its format is then float32. The constructor
  \<open>torch.tensor(data, dtype=torch.float32)\<close> belongs to the library: it is the parameter
  \<open>torch_tensor\<close>, \<open>None\<close> where it raises.
\<close>

datatype 'a audio =
    TorchTensor tensor
  | NdArray tensor
  | PyList "'a audio list"
  | PyTuple "'a audio list"
  | PyObject 'a

fun is_array_or_list :: "'a audio \<Rightarrow> bool" where
  "is_array_or_list (NdArray t) = True"
| "is_array_or_list (TorchTensor t) = True"
| "is_array_or_list (PyList xs) = True"
| "is_array_or_list _ = False"

definition convert_seq ::
  "('a audio \<Rightarrow> tensor option) \<Rightarrow> 'a audio \<Rightarrow> 'a audio list \<Rightarrow> error + tensor" where
  "convert_seq torch_tensor audio xs =
     (if length xs = 2 \<and> is_array_or_list (xs ! 1) then
        (case xs ! 1 of
           TorchTensor t \<Rightarrow> Inr t
         | NdArray t \<Rightarrow> Inr t
         | audio_data \<Rightarrow>
             (case torch_tensor audio_data of Some t \<Rightarrow> Inr t | None \<Rightarrow> Inl TorchError))
      else (case torch_tensor audio of Some t \<Rightarrow> Inr t | None \<Rightarrow> Inl TorchError))"

fun convert_to_tensor :: "('a audio \<Rightarrow> tensor option) \<Rightarrow> 'a audio \<Rightarrow> error + tensor" where
  "convert_to_tensor torch_tensor (TorchTensor t) = Inr t"
| "convert_to_tensor torch_tensor (NdArray t) = Inr t"
| "convert_to_tensor torch_tensor (PyList xs) = convert_seq torch_tensor (PyList xs) xs"
| "convert_to_tensor torch_tensor (PyTuple xs) = convert_seq torch_tensor (PyTuple xs) xs"
| "convert_to_tensor torch_tensor (PyObject a) =
     (case torch_tensor (PyObject a) of
        Some t \<Rightarrow> Inr t
      | None \<Rightarrow> Inl UnsupportedFormatError)"

text \<open>The value \<open>sqrt(mean(audio_flat ** 2))\<close> before the test for NaN and infinity.\<close>

definition raw_rms :: "tensor \<Rightarrow> flt" where
  "raw_rms audio_tensor =
     (let audio_flat = elems audio_tensor;
          d = dtype audio_tensor
      in fsqrt d (fmean d (map (\<lambda>v. fmul d v v) audio_flat)))"

definition calculate_rms :: "tensor \<Rightarrow> flt" where
  "calculate_rms audio_tensor =
     (let rms = raw_rms audio_tensor
      in if isnan rms \<or> isinf rms then Finite 0 else rms)"

definition analyze ::
  "('a audio \<Rightarrow> tensor option) \<Rightarrow> 'a audio \<Rightarrow> flt \<Rightarrow> bool \<Rightarrow> error + bool" where
  "analyze torch_tensor audio threshold invert =
     (case convert_to_tensor torch_tensor audio of
        Inl e \<Rightarrow> Inl e
      | Inr audio_tensor \<Rightarrow>
          (let rms = calculate_rms audio_tensor;
               is_silent = flt_less rms threshold;
               enabled = (if invert then \<not> is_silent else is_silent)
           in Inr enabled))"

section \<open>Notions used in the statements\<close>

text \<open>
  The frames that the loop of the smoothing stage has collected in \<open>out_seq\<close> when it
  ends.
\<close>

definition ema_frames :: "humo_node \<Rightarrow> tensor \<Rightarrow> flt list list" where
  "ema_frames self x =
     ema_loop (cast (dtype x) (PRESET_EMA_BETA self))
       (fsub (dtype x) (Finite 1) (cast (dtype x) (PRESET_EMA_BETA self))) x
       [1..<shape x ! 0] (frame x 0) [frame x 0]"



text \<open>A tensor holds values of its format only: rounding leaves each of them as it is.\<close>

definition dtype_value :: "dtype \<Rightarrow> flt \<Rightarrow> bool" where
  "dtype_value d v = (case v of Finite a \<Rightarrow> round_to d a = Finite a | _ \<Rightarrow> False)"


text \<open>
  The tensor that enters the blend of line 100 as \<open>x_edit\<close>: the result of line 90, or
  of line 96 when the RMS flag is set.
\<close>

definition gained :: "humo_node \<Rightarrow> tensor \<Rightarrow> tensor" where
  "gained self x = mul_gains (ema_smooth self x) (gains_tensor self (dtype x))"

definition edited :: "humo_node \<Rightarrow> tensor \<Rightarrow> tensor" where
  "edited self x =
     (if PRESET_PRESERVE_RMS self then preserve_rms x (gained self x) else gained self x)"


text \<open>The Euclidean norm of a list of reals.\<close>

definition l2 :: "real list \<Rightarrow> real" where
  "l2 xs = sqrt (sum_list (map (\<lambda>a. a * a) xs))"

section \<open>Facts about the stages\<close>

subsection \<open>Formats\<close>

lemma round_to_0 [simp]: "round_to d 0 = Finite 0"
  by transfer simp

lemma round_to_1 [simp]: "round_to d 1 = Finite 1"
  by transfer simp

lemma round_to_exact [simp]: "round_to exact a = Finite a"
  by transfer simp

lemma round_to_saturating:
  "round_to (saturating M) a = (if 1 \<le> M \<and> M < \<bar>a\<bar> then inf_signed (0 < a) else Finite a)"
  by transfer simp

lemma cast_exact [simp]: "cast exact v = v"
  by (cases v) simp_all

subsection \<open>Shapes\<close>

lemma ema_loop_length:
  "length (ema_loop beta one_m x ts s out_seq) = length out_seq + length ts"
  by (induction ts arbitrary: s out_seq) (auto simp: Let_def)

lemma ema_smooth_shape: "ndim x = 3 \<Longrightarrow> shape (ema_smooth self x) = shape x"
proof -
  assume n: "ndim x = 3"
  then obtain T B C where sh: "shape x = [T, B, C]"
    by (auto simp: ndim_def length_Suc_conv numeral_3_eq_3)
  show ?thesis
    by (auto simp: ema_smooth_def Let_def sh ema_loop_length)
qed





lemma blend_shape: "shape (blend alpha x_orig x_edit) = shape x_orig"
  by (simp add: blend_def)

lemma global_gain_shape: "shape (global_gain self x) = shape x"
  by (simp add: global_gain_def)

lemma clamp_std_shape: "shape (clamp_std self x) = shape x"
  by (simp add: clamp_std_def Let_def)

lemma edit_tensor_shape: "edit_tensor self x = Inr y \<Longrightarrow> shape y = shape x"
  by (auto simp: edit_tensor_def Let_def clamp_std_shape global_gain_shape blend_shape
      split: if_splits)

lemma edit_tensor_ok:
  "ndim x = 3 \<Longrightarrow> shape x ! 1 = 5 \<Longrightarrow> length (PRESET_GAINS self) = 5 \<Longrightarrow>
   \<exists>y. edit_tensor self x = Inr y"
  by (simp add: edit_tensor_def Let_def)

lemma edit_tensor_bad:
  "ndim x \<noteq> 3 \<or> shape x ! 1 \<noteq> 5 \<Longrightarrow> edit_tensor self x = Inl (ShapeError (shape x))"
  by (auto simp: edit_tensor_def)

subsection \<open>The store\<close>

lemma deref_append: "deref h a = Some ob \<Longrightarrow> deref (h @ h') a = Some ob"
  by (auto simp: deref_def nth_append split: if_splits)

lemma apply_node_enabled:
  assumes "deref h a = Some (DictObj d)" and "d key = Some xa"
    and "deref h xa = Some (TensorObj x)"
  shows "apply_node self h a True =
    (case edit_tensor self x of
       Inl e \<Rightarrow> Inl e
     | Inr y \<Rightarrow> Inr ((h @ [DictObj d, TensorObj y])
                       [length h := DictObj (d(key \<mapsto> Suc (length h)))], length h))"
  using assms deref_append [OF assms(3), of "[DictObj d]"]
  by (simp add: apply_node_def alloc_def split: sum.splits)

lemma preset_example:
  "edit_tensor HuMoLipsyncSuppress
     \<lparr>shape = [1, 5, 1], elems = [Finite 1, Finite 1, Finite 1, Finite 1, Finite 1],
      dtype = exact\<rparr>
   = Inr \<lparr>shape = [1, 5, 1],
          elems = [Finite 4, Finite 4, Finite (1 / 2), Finite (1 / 100), Finite (1 / 100)],
          dtype = exact\<rparr>"
  by (simp add: edit_tensor_def ndim_def HuMoLipsyncSuppress_def Let_def ema_smooth_def
      mul_gains_def gains_tensor_def blend_def global_gain_def clamp_std_def enumerate_eq_zip
      fsub_def upt_rec)

lemma apply_example:
  "apply_node HuMoLipsyncSuppress
     [DictObj (Map.empty(''humo_audio_emb'' \<mapsto> 1, ''other'' \<mapsto> 2)),
      TensorObj \<lparr>shape = [1, 5, 1], elems = [Finite 1, Finite 1, Finite 1, Finite 1, Finite 1],
                 dtype = exact\<rparr>,
      OtherObj] 0 True
   = Inr ([DictObj (Map.empty(''humo_audio_emb'' \<mapsto> 1, ''other'' \<mapsto> 2)),
           TensorObj \<lparr>shape = [1, 5, 1],
                      elems = [Finite 1, Finite 1, Finite 1, Finite 1, Finite 1],
                      dtype = exact\<rparr>,
           OtherObj,
           DictObj (Map.empty(''humo_audio_emb'' \<mapsto> 4, ''other'' \<mapsto> 2)),
           TensorObj \<lparr>shape = [1, 5, 1],
                      elems = [Finite 4, Finite 4, Finite (1 / 2), Finite (1 / 100),
                               Finite (1 / 100)],
                      dtype = exact\<rparr>], 3)"
proof -
  let ?d = "Map.empty(''humo_audio_emb'' \<mapsto> (1::nat), ''other'' \<mapsto> 2)"
  let ?x = "\<lparr>shape = [1, 5, 1], elems = [Finite 1, Finite 1, Finite 1, Finite 1, Finite 1],
            dtype = exact\<rparr>"
  let ?h = "[DictObj ?d, TensorObj ?x, OtherObj]"
  have a: "deref ?h 0 = Some (DictObj ?d)" by (simp add: deref_def)
  have b: "?d key = Some 1" by (simp add: key_def)
  have c: "deref ?h 1 = Some (TensorObj ?x)" by (simp add: deref_def)
  let ?y = "\<lparr>shape = [1, 5, 1],
             elems = [Finite 4, Finite 4, Finite (1 / 2), Finite (1 / 100), Finite (1 / 100)],
             dtype = exact\<rparr>"
  have m: "?d(key \<mapsto> Suc (length ?h)) =
             Map.empty(''humo_audio_emb'' \<mapsto> (4::nat), ''other'' \<mapsto> 2)"
    by (auto simp: key_def fun_eq_iff)
  have "apply_node HuMoLipsyncSuppress ?h 0 True =
          Inr ((?h @ [DictObj ?d, TensorObj ?y])
                 [length ?h := DictObj (?d(key \<mapsto> Suc (length ?h)))], length ?h)"
    unfolding apply_node_enabled [OF a b c] preset_example by simp
  also have "(?h @ [DictObj ?d, TensorObj ?y])[length ?h := DictObj (?d(key \<mapsto> Suc (length ?h)))] =
          [DictObj ?d, TensorObj ?x, OtherObj,
           DictObj (Map.empty(''humo_audio_emb'' \<mapsto> 4, ''other'' \<mapsto> 2)), TensorObj ?y]"
    unfolding m by simp
  also have "length ?h = 3" by simp
  finally show ?thesis .
qed

subsection \<open>The smoothing loop\<close>

lemma ema_loop_nth_old:
  "i < length out_seq \<Longrightarrow> ema_loop beta one_m x ts s out_seq ! i = out_seq ! i"
  by (induction ts arbitrary: s out_seq) (auto simp: Let_def nth_append)

lemma ema_loop_nth_new:
  "out_seq \<noteq> [] \<Longrightarrow> last out_seq = s \<Longrightarrow> k < length ts \<Longrightarrow>
   ema_loop beta one_m x ts s out_seq ! (length out_seq + k) =
     ema_step (dtype x) beta one_m (ema_loop beta one_m x ts s out_seq ! (length out_seq + k - 1))
       (frame x (ts ! k))"
proof (induction ts arbitrary: s out_seq k)
  case Nil
  then show ?case by simp
next
  case (Cons t ts)
  let ?s' = "ema_step (dtype x) beta one_m s (frame x t)"
  let ?out = "out_seq @ [?s']"
  let ?R = "ema_loop beta one_m x ts ?s' ?out"
  have R: "ema_loop beta one_m x (t # ts) s out_seq = ?R" by (simp add: Let_def)
  show ?case
  proof (cases k)
    case 0
    have "?R ! length out_seq = ?s'"
      using ema_loop_nth_old [of "length out_seq" ?out beta one_m x ts ?s'] by simp
    moreover have "?R ! (length out_seq - 1) = s"
      using ema_loop_nth_old [of "length out_seq - 1" ?out beta one_m x ts ?s'] Cons.prems(1,2)
      by (simp add: nth_append last_conv_nth)
    ultimately show ?thesis using 0 R by simp
  next
    case (Suc k')
    have "?R ! (length ?out + k') =
       ema_step (dtype x) beta one_m (?R ! (length ?out + k' - 1)) (frame x (ts ! k'))"
      using Cons.IH [of ?out ?s' k'] Cons.prems(3) Suc by simp
    then show ?thesis using Suc R by simp
  qed
qed

lemma ema_step_length:
  "length (ema_step d beta one_m s xt) = min (length s) (length xt)"
  by (simp add: ema_step_def)

lemma ema_step_nth:
  "j < length s \<Longrightarrow> j < length xt \<Longrightarrow>
   ema_step d beta one_m s xt ! j = fadd d (fmul d beta (s ! j)) (fmul d one_m (xt ! j))"
  by (simp add: ema_step_def)

lemma concat_nth_uniform:
  "\<forall>r\<in>set rs. length r = n \<Longrightarrow> t < length rs \<Longrightarrow> j < n \<Longrightarrow>
   concat rs ! (t * n + j) = rs ! t ! j"
proof (induction rs arbitrary: t)
  case Nil
  then show ?case by simp
next
  case (Cons r rs)
  show ?case
  proof (cases t)
    case 0
    then show ?thesis using Cons.prems by (simp add: nth_append)
  next
    case (Suc t')
    then have "concat rs ! (t' * n + j) = rs ! t' ! j"
      using Cons.IH [of t'] Cons.prems by simp
    then show ?thesis using Suc Cons.prems by (simp add: nth_append)
  qed
qed

lemma concat_length_uniform:
  "\<forall>r\<in>set rs. length r = n \<Longrightarrow> length (concat rs) = length rs * n"
  by (induction rs) auto

lemma frame_length:
  "Suc t * frame_size x \<le> length (elems x) \<Longrightarrow> length (frame x t) = frame_size x"
  by (auto simp: frame_def)

lemma frame_nth:
  "j < frame_size x \<Longrightarrow> t * frame_size x + j < length (elems x) \<Longrightarrow>
   frame x t ! j = elems x ! (t * frame_size x + j)"
  by (simp add: frame_def)

lemma frames_bound:
  assumes "wf_tensor x" and "shape x = T # sh" and "t < T"
  shows "Suc t * frame_size x \<le> length (elems x)"
proof -
  have "length (elems x) = T * frame_size x"
    using assms by (simp add: wf_tensor_def frame_size_def)
  moreover have "Suc t \<le> T" using assms(3) by simp
  ultimately show ?thesis by (metis mult_le_mono1)
qed

lemma ema_frames_length:
  "shape x = T # sh \<Longrightarrow> 0 < T \<Longrightarrow> length (ema_frames self x) = T"
  by (simp add: ema_frames_def ema_loop_length)

lemma ema_frames_0: "ema_frames self x ! 0 = frame x 0"
  by (simp add: ema_frames_def ema_loop_nth_old)

lemma ema_frames_Suc:
  assumes "shape x = T # sh" and "Suc t < T"
  shows "ema_frames self x ! Suc t =
     ema_step (dtype x) (cast (dtype x) (PRESET_EMA_BETA self))
       (fsub (dtype x) (Finite 1) (cast (dtype x) (PRESET_EMA_BETA self)))
       (ema_frames self x ! t) (frame x (Suc t))"
proof -
  have "t < length [1..<T]" using assms(2) by simp
  moreover have "[1..<T] ! t = Suc t" using assms(2) by simp
  ultimately show ?thesis
    using ema_loop_nth_new [of "[frame x 0]" "frame x 0" t "[1..<T]"
        "cast (dtype x) (PRESET_EMA_BETA self)"
        "fsub (dtype x) (Finite 1) (cast (dtype x) (PRESET_EMA_BETA self))" x] assms(1)
    by (simp add: ema_frames_def)
qed

lemma ema_frames_row_length:
  assumes "wf_tensor x" and "shape x = T # sh" and "t < T"
  shows "length (ema_frames self x ! t) = frame_size x"
  using assms(3)
proof (induction t)
  case 0
  then show ?case
    using frame_length [OF frames_bound [OF assms(1,2), of 0]] by (simp add: ema_frames_0)
next
  case (Suc t)
  then have "length (ema_frames self x ! t) = frame_size x" by simp
  moreover have "length (frame x (Suc t)) = frame_size x"
    using frame_length [OF frames_bound [OF assms(1,2) Suc.prems]] .
  ultimately show ?case
    using ema_frames_Suc [OF assms(2) Suc.prems, of self] by (simp add: ema_step_length)
qed

lemma ema_frames_uniform:
  assumes "wf_tensor x" and "shape x = T # sh" and "0 < T"
  shows "\<forall>r\<in>set (ema_frames self x). length r = frame_size x"
proof
  fix r assume "r \<in> set (ema_frames self x)"
  then obtain t where "t < length (ema_frames self x)" "r = ema_frames self x ! t"
    by (auto simp: in_set_conv_nth)
  then show "length r = frame_size x"
    using ema_frames_row_length [OF assms(1,2), of t self] ema_frames_length [OF assms(2,3), of self]
    by simp
qed

lemma ema_smooth_on:
  "1 < shape x ! 0 \<Longrightarrow> flt_less (Finite 0) (PRESET_EMA_BETA self) \<Longrightarrow>
   ema_smooth self x =
     \<lparr>shape = length (ema_frames self x) # tl (shape x), elems = concat (ema_frames self x),
      dtype = dtype x\<rparr>"
  by (simp add: ema_smooth_def ema_frames_def Let_def)

lemma ema_smooth_off:
  "\<not> (1 < shape x ! 0 \<and> flt_less (Finite 0) (PRESET_EMA_BETA self)) \<Longrightarrow>
   ema_smooth self x = x"
  unfolding ema_smooth_def by (simp only: if_False)

lemma index3:
  "((t::nat) * 5 + b) * C + c = t * (5 * C) + (b * C + c)"
  by (simp add: algebra_simps)

lemma index3_bound:
  assumes "(b::nat) < 5" and "c < C"
  shows "b * C + c < 5 * C"
proof -
  have "b * C + c < b * C + C" using assms(2) by simp
  also have "\<dots> = Suc b * C" by simp
  also have "\<dots> \<le> 5 * C" using assms(1) by (intro mult_le_mono1) simp
  finally show ?thesis .
qed

lemma ema_smooth_skip:
  assumes "shape x = T # sh" and "T = 1 \<or> PRESET_EMA_BETA self = Finite 0"
  shows "ema_smooth self x = x"
  using assms by (auto simp: ema_smooth_def)

lemma ema_smooth_at:
  assumes sh: "shape x = [T, 5, C]" and wf: "wf_tensor x"
    and on: "1 < T" "flt_less (Finite 0) (PRESET_EMA_BETA self)"
    and bc: "b < 5" "c < C"
  shows "at3 (ema_smooth self x) 0 b c = at3 x 0 b c"
    and "Suc t < T \<Longrightarrow>
         at3 (ema_smooth self x) (Suc t) b c =
           fadd (dtype x)
             (fmul (dtype x) (cast (dtype x) (PRESET_EMA_BETA self))
                (at3 (ema_smooth self x) t b c))
             (fmul (dtype x) (fsub (dtype x) (Finite 1) (cast (dtype x) (PRESET_EMA_BETA self)))
                (at3 x (Suc t) b c))"
proof -
  from on have T: "0 < T" by simp
  let ?n = "frame_size x"
  let ?j = "b * C + c"
  let ?R = "ema_frames self x"
  let ?d = "dtype x"
  let ?beta = "cast ?d (PRESET_EMA_BETA self)"
  have n: "?n = 5 * C" by (simp add: frame_size_def sh)
  have j: "?j < ?n" using index3_bound [OF bc] n by simp
  have sm: "ema_smooth self x =
      \<lparr>shape = length ?R # tl (shape x), elems = concat ?R, dtype = dtype x\<rparr>"
    using on sh by (simp add: ema_smooth_on)
  have len: "length ?R = T" by (rule ema_frames_length [OF sh T])
  have uni: "\<forall>r\<in>set ?R. length r = ?n" by (rule ema_frames_uniform [OF wf sh T])
  have total: "length (elems x) = T * ?n"
    using sh wf by (simp add: wf_tensor_def frame_size_def)
  have at_sm: "at3 (ema_smooth self x) t b c = ?R ! t ! ?j" if "t < T" for t
  proof -
    have "at3 (ema_smooth self x) t b c = concat ?R ! (t * ?n + ?j)"
      by (simp add: at3_def sm sh index3 n)
    also have "\<dots> = ?R ! t ! ?j"
      using concat_nth_uniform [OF uni, of t ?j] that len j by simp
    finally show ?thesis .
  qed
  have in_range: "t * ?n + ?j < length (elems x)" if "t < T" for t
  proof -
    have "t * ?n + ?j < t * ?n + ?n" using j by simp
    also have "\<dots> = Suc t * ?n" by simp
    also have "\<dots> \<le> T * ?n" using that by (intro mult_le_mono1) simp
    finally show ?thesis using total by simp
  qed
  have at_x: "at3 x t b c = frame x t ! ?j" if "t < T" for t
    using frame_nth [OF j in_range [OF that]] by (simp add: at3_def sh index3 n)
  show "at3 (ema_smooth self x) 0 b c = at3 x 0 b c"
    using at_sm [OF T] at_x [OF T] by (simp add: ema_frames_0)
  show "at3 (ema_smooth self x) (Suc t) b c =
          fadd ?d (fmul ?d ?beta (at3 (ema_smooth self x) t b c))
               (fmul ?d (fsub ?d (Finite 1) ?beta) (at3 x (Suc t) b c))"
    if st: "Suc t < T"
  proof -
    have t: "t < T" using st by simp
    have l1: "?j < length (?R ! t)"
      using ema_frames_row_length [OF wf sh t, of self] j by simp
    have l2: "?j < length (frame x (Suc t))"
      using frame_length [OF frames_bound [OF wf sh st]] j by simp
    have "?R ! Suc t ! ?j =
        fadd ?d (fmul ?d ?beta (?R ! t ! ?j))
          (fmul ?d (fsub ?d (Finite 1) ?beta) (frame x (Suc t) ! ?j))"
      using ema_frames_Suc [OF sh st, of self] ema_step_nth [OF l1 l2] by simp
    then show ?thesis using at_sm [OF st] at_sm [OF t] at_x [OF st] by simp
  qed
qed

lemma ema_smooth_length:
  assumes "wf_tensor x" and "shape x = T # sh"
  shows "length (elems (ema_smooth self x)) = length (elems x)"
proof (cases "1 < shape x ! 0 \<and> flt_less (Finite 0) (PRESET_EMA_BETA self)")
  case True
  then have T: "0 < T" using assms(2) by simp
  have "length (concat (ema_frames self x)) = length (ema_frames self x) * frame_size x"
    by (rule concat_length_uniform [OF ema_frames_uniform [OF assms T]])
  also have "\<dots> = T * frame_size x"
    by (simp add: ema_frames_length [OF assms(2) T])
  also have "\<dots> = length (elems x)"
    using assms by (simp add: wf_tensor_def frame_size_def)
  finally show ?thesis using True by (simp add: ema_smooth_on)
next
  case False
  then show ?thesis by (simp add: ema_smooth_off)
qed

subsection \<open>The tensor that enters the blend\<close>

lemma mul_gains_length: "length (elems (mul_gains x g)) = length (elems x)"
  by (simp add: mul_gains_def)

lemma preserve_rms_length:
  "length (elems (preserve_rms x_orig x_edit)) = length (elems x_edit)"
  by (simp add: preserve_rms_def Let_def)


lemma gained_length:
  "wf_tensor x \<Longrightarrow> shape x = [T, 5, C] \<Longrightarrow>
   length (elems (gained self x)) = length (elems x)"
  by (simp add: gained_def mul_gains_length ema_smooth_length)



lemma edited_length:
  "wf_tensor x \<Longrightarrow> shape x = [T, 5, C] \<Longrightarrow>
   length (elems (edited self x)) = length (elems x)"
  by (simp add: edited_def preserve_rms_length gained_length)

lemma edit_tensor_stages:
  assumes "shape x = [T, 5, C]" and "length (PRESET_GAINS self) = 5"
  shows "edit_tensor self x =
     Inr (clamp_std self (global_gain self
            (blend (cast (dtype x) (PRESET_ALPHA_MIX self)) x (edited self x))))"
  using assms by (simp add: edit_tensor_def ndim_def Let_def edited_def gained_def)

lemma is_finite_conv: "is_finite v \<longleftrightarrow> (\<exists>a. v = Finite a)"
  by (cases v) auto

lemma blend_zero:
  assumes "length es = length xs" and "list_all (dtype_value d) xs" and "list_all is_finite es"
  shows "map2 (\<lambda>a b. fadd d (fmul d (fsub d (Finite 1) (Finite 0)) a) (fmul d (Finite 0) b)) xs es
         = xs"
  using assms
proof (induction es xs rule: list_induct2)
  case Nil
  then show ?case by simp
next
  case (Cons e es x xs)
  from Cons.prems obtain a where a: "x = Finite a" "round_to d a = Finite a"
    by (cases x) (auto simp: dtype_value_def)
  from Cons.prems obtain b where b: "e = Finite b"
    by (auto simp: is_finite_conv)
  have "fadd d (fmul d (fsub d (Finite 1) (Finite 0)) x) (fmul d (Finite 0) e) = x"
    using a b by (simp add: fsub_def)
  then show ?case using Cons by simp
qed

subsection \<open>Root mean squares in exact arithmetic\<close>











subsection \<open>Rows of a tensor\<close>













subsection \<open>The norm of a row\<close>














subsection \<open>The loudness gate\<close>

lemma fsum_zeros: "\<forall>v\<in>set xs. v = Finite 0 \<Longrightarrow> foldl (fadd d) (Finite 0) xs = Finite 0"
  by (induction xs) auto

lemma calculate_rms_finite: "is_finite (calculate_rms t)"
  by (cases "raw_rms t") (auto simp: calculate_rms_def Let_def)

section \<open>The claims\<close>

text \<open>
  C1. With \<open>enabled = False\<close>, \<open>apply\<close> returns the reference it was given and
  leaves the store as it is: the returned mapping is the input mapping, and no object,
  so no tensor, is modified.
\<close>

theorem apply_disabled_identity:
  "apply_node self h image_embeds False = Inr (h, image_embeds)"
  by (simp add: apply_node_def)

text \<open>
  C2. For a well-formed tensor of shape \<open>[T, 5, C]\<close>: when it has more than one time
  step and \<open>\<beta> > 0\<close>, the smoothed tensor has the shape of \<open>x\<close>, its frame 0 is
  \<open>x[0]\<close>, and at each later time step \<open>t + 1\<close>, for every band \<open>b\<close> and channel
  \<open>c\<close>, its element is \<open>\<beta> * s + (1 - \<beta>) * x[t + 1, b, c]\<close>, where \<open>s\<close> is its own
  element at \<open>t\<close>, each operation done in the format of \<open>x\<close>. When the tensor has exactly
  one time step, or \<open>\<beta> = 0\<close>, the stage returns \<open>x\<close>.
\<close>

theorem ema_smooth_scan:
  assumes "shape x = [T, 5, C]" and "wf_tensor x"
  shows "(1 < T \<and> flt_less (Finite 0) (PRESET_EMA_BETA self) \<longrightarrow>
           shape (ema_smooth self x) = shape x \<and>
           (\<forall>b c. b < 5 \<and> c < C \<longrightarrow>
              at3 (ema_smooth self x) 0 b c = at3 x 0 b c \<and>
              (\<forall>t. Suc t < T \<longrightarrow>
                 at3 (ema_smooth self x) (Suc t) b c =
                   fadd (dtype x)
                     (fmul (dtype x) (cast (dtype x) (PRESET_EMA_BETA self))
                        (at3 (ema_smooth self x) t b c))
                     (fmul (dtype x)
                        (fsub (dtype x) (Finite 1) (cast (dtype x) (PRESET_EMA_BETA self)))
                        (at3 x (Suc t) b c))))) \<and>
         (T = 1 \<or> PRESET_EMA_BETA self = Finite 0 \<longrightarrow> ema_smooth self x = x)"
proof -
  have "shape (ema_smooth self x) = shape x"
    using ema_smooth_shape [of x self] assms(1) by (simp add: ndim_def)
  moreover have "T = 1 \<or> PRESET_EMA_BETA self = Finite 0 \<longrightarrow> ema_smooth self x = x"
    using ema_smooth_skip [OF assms(1), of self] by blast
  ultimately show ?thesis
    using ema_smooth_at [OF assms] by blast
qed

theorem ema_smooth_scan_witness:
  "at3 (ema_smooth HuMoLipsyncSuppress
          \<lparr>shape = [2, 5, 1],
           elems = [Finite 1, Finite 1, Finite 1, Finite 1, Finite 1,
                    Finite 3, Finite 3, Finite 3, Finite 3, Finite 3],
           dtype = exact\<rparr>) 0 0 0 = Finite 1 \<and>
   at3 (ema_smooth HuMoLipsyncSuppress
          \<lparr>shape = [2, 5, 1],
           elems = [Finite 1, Finite 1, Finite 1, Finite 1, Finite 1,
                    Finite 3, Finite 3, Finite 3, Finite 3, Finite 3],
           dtype = exact\<rparr>) 1 0 0 = Finite (6 / 5) \<and>
   ema_smooth HuMoLipsyncSuppress
     \<lparr>shape = [1, 5, 1], elems = [Finite 1, Finite 2, Finite 3, Finite 4, Finite 5],
      dtype = exact\<rparr>
   = \<lparr>shape = [1, 5, 1], elems = [Finite 1, Finite 2, Finite 3, Finite 4, Finite 5],
      dtype = exact\<rparr>"
proof -
  let ?x = "\<lparr>shape = [2, 5, 1],
           elems = [Finite 1, Finite 1, Finite 1, Finite 1, Finite 1,
                    Finite 3, Finite 3, Finite 3, Finite 3, Finite 3],
           dtype = exact\<rparr>"
  let ?y = "\<lparr>shape = [1, 5, 1], elems = [Finite 1, Finite 2, Finite 3, Finite 4, Finite 5],
            dtype = exact\<rparr>"
  let ?beta = "cast (dtype ?x) (PRESET_EMA_BETA HuMoLipsyncSuppress)"
  have sx: "shape ?x = [2, 5, 1]" by simp
  have wx: "wf_tensor ?x" by (simp add: wf_tensor_def)
  have sy: "shape ?y = [1, 5, 1]" by simp
  have wy: "wf_tensor ?y" by (simp add: wf_tensor_def)
  have on: "1 < (2::nat) \<and> flt_less (Finite 0) (PRESET_EMA_BETA HuMoLipsyncSuppress)"
    by (simp add: HuMoLipsyncSuppress_def)
  have bc: "(0::nat) < 5 \<and> (0::nat) < 1" by simp
  have t: "Suc 0 < (2::nat)" by simp
  from ema_smooth_scan [OF sx wx, of HuMoLipsyncSuppress] on
  have all: "\<forall>b c. b < 5 \<and> c < 1 \<longrightarrow>
              at3 (ema_smooth HuMoLipsyncSuppress ?x) 0 b c = at3 ?x 0 b c \<and>
              (\<forall>t. Suc t < 2 \<longrightarrow>
                 at3 (ema_smooth HuMoLipsyncSuppress ?x) (Suc t) b c =
                   fadd (dtype ?x)
                     (fmul (dtype ?x) ?beta (at3 (ema_smooth HuMoLipsyncSuppress ?x) t b c))
                     (fmul (dtype ?x) (fsub (dtype ?x) (Finite 1) ?beta) (at3 ?x (Suc t) b c)))"
    by blast
  from all bc have a0: "at3 (ema_smooth HuMoLipsyncSuppress ?x) 0 0 0 = at3 ?x 0 0 0"
    by blast
  from all bc t have a1: "at3 (ema_smooth HuMoLipsyncSuppress ?x) (Suc 0) 0 0 =
                   fadd (dtype ?x)
                     (fmul (dtype ?x) ?beta (at3 (ema_smooth HuMoLipsyncSuppress ?x) 0 0 0))
                     (fmul (dtype ?x) (fsub (dtype ?x) (Finite 1) ?beta) (at3 ?x (Suc 0) 0 0))"
    by blast
  have x0: "at3 ?x 0 0 0 = Finite 1" and x1: "at3 ?x (Suc 0) 0 0 = Finite 3"
    by (simp_all add: at3_def)
  have id: "ema_smooth HuMoLipsyncSuppress ?y = ?y"
    using ema_smooth_scan [OF sy wy, of HuMoLipsyncSuppress] by simp
  have "at3 (ema_smooth HuMoLipsyncSuppress ?x) 1 0 0 = Finite (6 / 5)"
    using a1 a0 x0 x1 by (simp add: HuMoLipsyncSuppress_def fsub_def)
  with a0 x0 id show ?thesis by simp
qed

text \<open>
  C3, as amended. The blend factor 0 gives back the input when the global gain is 1,
  the clamp is off, the elements of \<open>x\<close> are finite values of its format and every
  element of the tensor that enters the blend as \<open>x_edit\<close> is finite, that is, when no
  step before the blend has overflowed or produced NaN. This holds in every format,
  for a well-formed tensor of shape \<open>[T, 5, C]\<close> and five gains, whatever the gains, the
  smoothing factor and the RMS flag are. The claim as stated fails, as the runs of
  \<open>blend_back_counterexample\<close> show: the global gain and the clamp come after the
  blend, so a gain of 2 or a clamp width of 1/2 still changes the result; and \<open>0 * inf\<close>
  is NaN, so an infinite element, or a finite one that the gain of line 90 takes beyond
  the largest finite value of the format, comes back as NaN.
\<close>

theorem blend_back:
  assumes "shape x = [T, 5, C]" and "wf_tensor x"
    and "list_all (dtype_value (dtype x)) (elems x)"
    and "length (PRESET_GAINS self) = 5"
    and "PRESET_ALPHA_MIX self = Finite 0" and "PRESET_GLOBAL_GAIN self = Finite 1"
    and "\<not> flt_less (Finite 0) (PRESET_CLAMP_STD self)"
    and "list_all is_finite (elems (edited self x))"
  shows "edit_tensor self x = Inr x"
proof -
  have len: "length (elems (edited self x)) = length (elems x)"
    by (rule edited_length [OF assms(2,1)])
  have "blend (Finite 0) x (edited self x) =
          \<lparr>shape = shape x, elems = elems x, dtype = dtype x\<rparr>"
    using blend_zero [OF len assms(3,8)] by (simp add: blend_def)
  then have b: "blend (cast (dtype x) (PRESET_ALPHA_MIX self)) x (edited self x) = x"
    using assms(5) by simp
  show ?thesis
    unfolding edit_tensor_stages [OF assms(1,4)] b
    using assms(6,7) by (simp add: global_gain_def clamp_std_def)
qed

theorem blend_back_witness:
  "edit_tensor (HuMoLipsyncSuppress\<lparr>PRESET_ALPHA_MIX := Finite 0\<rparr>)
     \<lparr>shape = [2, 5, 1],
      elems = [Finite 1, Finite 1, Finite 1, Finite 1, Finite 1,
               Finite 3, Finite 3, Finite 3, Finite 3, Finite 3],
      dtype = saturating 65504\<rparr>
   = Inr \<lparr>shape = [2, 5, 1],
          elems = [Finite 1, Finite 1, Finite 1, Finite 1, Finite 1,
                   Finite 3, Finite 3, Finite 3, Finite 3, Finite 3],
          dtype = saturating 65504\<rparr>"
proof -
  let ?self = "HuMoLipsyncSuppress\<lparr>PRESET_ALPHA_MIX := Finite 0\<rparr>"
  let ?x = "\<lparr>shape = [2, 5, 1],
           elems = [Finite 1, Finite 1, Finite 1, Finite 1, Finite 1,
                    Finite 3, Finite 3, Finite 3, Finite 3, Finite 3],
           dtype = saturating 65504\<rparr>"
  have 1: "shape ?x = [2, 5, 1]" by simp
  have 2: "wf_tensor ?x" by (simp add: wf_tensor_def)
  have 3: "list_all (dtype_value (dtype ?x)) (elems ?x)"
    by (simp add: dtype_value_def round_to_saturating)
  have 4: "length (PRESET_GAINS ?self) = 5" by (simp add: HuMoLipsyncSuppress_def)
  have 5: "PRESET_ALPHA_MIX ?self = Finite 0" by simp
  have 6: "PRESET_GLOBAL_GAIN ?self = Finite 1" by (simp add: HuMoLipsyncSuppress_def)
  have 7: "\<not> flt_less (Finite 0) (PRESET_CLAMP_STD ?self)" by (simp add: HuMoLipsyncSuppress_def)
  have 8: "list_all is_finite (elems (edited ?self ?x))"
    by (simp add: edited_def gained_def HuMoLipsyncSuppress_def ema_smooth_def Let_def
        ema_step_def frame_def frame_size_def mul_gains_def gains_tensor_def enumerate_eq_zip
        fsub_def upt_rec round_to_saturating)
  show ?thesis by (rule blend_back [OF 1 2 3 4 5 6 7 8])
qed

theorem blend_back_counterexample:
  "PRESET_ALPHA_MIX (HuMoLipsyncSuppress\<lparr>PRESET_ALPHA_MIX := Finite 0, PRESET_GLOBAL_GAIN := Finite 2\<rparr>)
     = Finite 0 \<and>
   edit_tensor (HuMoLipsyncSuppress\<lparr>PRESET_ALPHA_MIX := Finite 0, PRESET_GLOBAL_GAIN := Finite 2\<rparr>)
     \<lparr>shape = [1, 5, 1], elems = [Finite 1, Finite 1, Finite 1, Finite 1, Finite 1],
      dtype = exact\<rparr>
   = Inr \<lparr>shape = [1, 5, 1], elems = [Finite 2, Finite 2, Finite 2, Finite 2, Finite 2],
          dtype = exact\<rparr> \<and>
   edit_tensor (HuMoLipsyncSuppress\<lparr>PRESET_ALPHA_MIX := Finite 0, PRESET_GLOBAL_GAIN := Finite 2\<rparr>)
     \<lparr>shape = [1, 5, 1], elems = [Finite 1, Finite 1, Finite 1, Finite 1, Finite 1],
      dtype = exact\<rparr>
   \<noteq> Inr \<lparr>shape = [1, 5, 1], elems = [Finite 1, Finite 1, Finite 1, Finite 1, Finite 1],
          dtype = exact\<rparr> \<and>
   PRESET_ALPHA_MIX (HuMoLipsyncSuppress\<lparr>PRESET_ALPHA_MIX := Finite 0, PRESET_CLAMP_STD := Finite (1 / 2)\<rparr>)
     = Finite 0 \<and>
   edit_tensor (HuMoLipsyncSuppress\<lparr>PRESET_ALPHA_MIX := Finite 0, PRESET_CLAMP_STD := Finite (1 / 2)\<rparr>)
     \<lparr>shape = [1, 5, 1], elems = [Finite (- 1), Finite (- 1), Finite 0, Finite 1, Finite 1],
      dtype = exact\<rparr>
   = Inr \<lparr>shape = [1, 5, 1],
          elems = [Finite (- 1 / 2), Finite (- 1 / 2), Finite 0, Finite (1 / 2), Finite (1 / 2)],
          dtype = exact\<rparr> \<and>
   edit_tensor (HuMoLipsyncSuppress\<lparr>PRESET_ALPHA_MIX := Finite 0, PRESET_CLAMP_STD := Finite (1 / 2)\<rparr>)
     \<lparr>shape = [1, 5, 1], elems = [Finite (- 1), Finite (- 1), Finite 0, Finite 1, Finite 1],
      dtype = exact\<rparr>
   \<noteq> Inr \<lparr>shape = [1, 5, 1], elems = [Finite (- 1), Finite (- 1), Finite 0, Finite 1, Finite 1],
          dtype = exact\<rparr> \<and>
   edit_tensor (HuMoLipsyncSuppress\<lparr>PRESET_ALPHA_MIX := Finite 0\<rparr>)
     \<lparr>shape = [1, 5, 1], elems = [PosInf, Finite 1, Finite 1, Finite 1, Finite 1],
      dtype = exact\<rparr>
   = Inr \<lparr>shape = [1, 5, 1], elems = [NaN, Finite 1, Finite 1, Finite 1, Finite 1],
          dtype = exact\<rparr> \<and>
   edit_tensor (HuMoLipsyncSuppress\<lparr>PRESET_ALPHA_MIX := Finite 0\<rparr>)
     \<lparr>shape = [1, 5, 1],
      elems = [Finite 30000, Finite 30000, Finite 30000, Finite 30000, Finite 30000],
      dtype = saturating 65504\<rparr>
   = Inr \<lparr>shape = [1, 5, 1],
          elems = [NaN, NaN, Finite 30000, Finite 30000, Finite 30000],
          dtype = saturating 65504\<rparr>"
  by (simp add: edit_tensor_def ndim_def HuMoLipsyncSuppress_def Let_def ema_smooth_def
      mul_gains_def gains_tensor_def blend_def global_gain_def clamp_std_def enumerate_eq_zip
      fsub_def upt_rec fmean_def fsum_def fstd_def clamp_def clamp_min_def clamp_max_def
      inf_signed_def round_to_saturating)

text \<open>
  C4. With \<open>enabled = True\<close>, the key present and a tensor under it, \<open>apply\<close> fails
  with the shape error exactly when the tensor has not 3 axes or its second axis is not
  5; the failure carries no store and no mapping. Otherwise \<open>apply\<close> returns a mapping
  whose entry under the key is a tensor of the shape of the input.
\<close>

theorem apply_shape_error_iff:
  assumes "deref h a = Some (DictObj d)" and "d key = Some xa"
    and "deref h xa = Some (TensorObj x)" and "length (PRESET_GAINS self) = 5"
  shows "((\<exists>s. apply_node self h a True = Inl (ShapeError s)) \<longleftrightarrow>
            (ndim x \<noteq> 3 \<or> shape x ! 1 \<noteq> 5)) \<and>
         (ndim x \<noteq> 3 \<or> shape x ! 1 \<noteq> 5 \<longrightarrow>
            apply_node self h a True = Inl (ShapeError (shape x))) \<and>
         (ndim x = 3 \<and> shape x ! 1 = 5 \<longrightarrow>
            (\<exists>h' a' d' xm y. apply_node self h a True = Inr (h', a') \<and>
               deref h' a' = Some (DictObj d') \<and> d' key = Some xm \<and>
               deref h' xm = Some (TensorObj y) \<and> shape y = shape x))"
proof (cases "ndim x \<noteq> 3 \<or> shape x ! 1 \<noteq> 5")
  case True
  then have "apply_node self h a True = Inl (ShapeError (shape x))"
    using apply_node_enabled [OF assms(1-3), of self] edit_tensor_bad [of x self] by simp
  with True show ?thesis by auto
next
  case False
  then obtain y where y: "edit_tensor self x = Inr y"
    using edit_tensor_ok [of x self] assms(4) by auto
  have sh: "shape y = shape x" by (rule edit_tensor_shape [OF y])
  let ?h' = "(h @ [DictObj d, TensorObj y])[length h := DictObj (d(key \<mapsto> Suc (length h)))]"
  have r: "apply_node self h a True = Inr (?h', length h)"
    using apply_node_enabled [OF assms(1-3), of self] y by simp
  have "deref ?h' (length h) = Some (DictObj (d(key \<mapsto> Suc (length h))))"
    by (simp add: deref_def nth_append)
  moreover have "deref ?h' (Suc (length h)) = Some (TensorObj y)"
    by (simp add: deref_def nth_append)
  ultimately show ?thesis using r sh False by auto
qed

theorem apply_shape_error_iff_witness:
  "apply_node HuMoLipsyncSuppress
     [DictObj (Map.empty(''humo_audio_emb'' \<mapsto> 1)),
      TensorObj \<lparr>shape = [10, 3, 1280], elems = replicate 38400 (Finite 0), dtype = exact\<rparr>]
     0 True
   = Inl (ShapeError [10, 3, 1280]) \<and>
   (\<exists>h' a' d' xm y.
      apply_node HuMoLipsyncSuppress
        [DictObj (Map.empty(''humo_audio_emb'' \<mapsto> 1)),
         TensorObj \<lparr>shape = [2, 5, 3], elems = replicate 30 (Finite 1), dtype = exact\<rparr>] 0 True
      = Inr (h', a') \<and>
      deref h' a' = Some (DictObj d') \<and> d' key = Some xm \<and>
      deref h' xm = Some (TensorObj y) \<and> shape y = [2, 5, 3])"
proof -
  let ?d = "Map.empty(''humo_audio_emb'' \<mapsto> (1::nat))"
  let ?x = "\<lparr>shape = [10, 3, 1280], elems = replicate 38400 (Finite 0), dtype = exact\<rparr>"
  let ?h = "[DictObj ?d, TensorObj ?x]"
  let ?x' = "\<lparr>shape = [2, 5, 3], elems = replicate 30 (Finite 1), dtype = exact\<rparr>"
  let ?h' = "[DictObj ?d, TensorObj ?x']"
  have b: "?d key = Some 1" by (simp add: key_def)
  have g: "length (PRESET_GAINS HuMoLipsyncSuppress) = 5"
    by (simp add: HuMoLipsyncSuppress_def)
  have a: "deref ?h 0 = Some (DictObj ?d)" by (simp add: deref_def)
  have c: "deref ?h 1 = Some (TensorObj ?x)" by (simp add: deref_def)
  have bad: "ndim ?x \<noteq> 3 \<or> shape ?x ! 1 \<noteq> 5" by (simp add: ndim_def)
  have a': "deref ?h' 0 = Some (DictObj ?d)" by (simp add: deref_def)
  have c': "deref ?h' 1 = Some (TensorObj ?x')" by (simp add: deref_def)
  have good: "ndim ?x' = 3 \<and> shape ?x' ! 1 = 5" by (simp add: ndim_def)
  have sh: "shape ?x' = [2, 5, 3]" by simp
  from apply_shape_error_iff [OF a b c g] bad
  have 1: "apply_node HuMoLipsyncSuppress ?h 0 True = Inl (ShapeError [10, 3, 1280])"
    by simp
  from apply_shape_error_iff [OF a' b c' g] good
  have "\<exists>h' a' d' xm y.
      apply_node HuMoLipsyncSuppress ?h' 0 True = Inr (h', a') \<and>
      deref h' a' = Some (DictObj d') \<and> d' key = Some xm \<and>
      deref h' xm = Some (TensorObj y) \<and> shape y = shape ?x'"
    by blast
  with 1 show ?thesis unfolding sh by blast
qed




text \<open>
  C6. \<open>analyze\<close> with \<open>invert = True\<close> returns the negation of what it returns with
  \<open>invert = False\<close>, for every audio input and threshold; where the conversion of the
  audio fails, both calls fail with the same error.
\<close>

theorem analyze_invert_negates:
  "(case analyze torch_tensor audio threshold False of
      Inl e \<Rightarrow> analyze torch_tensor audio threshold True = Inl e
    | Inr b \<Rightarrow> analyze torch_tensor audio threshold True = Inr (\<not> b))"
  by (simp add: analyze_def Let_def split: sum.splits)

text \<open>
  C7. \<open>_calculate_rms\<close> returns exactly 0.0 on a buffer with no sample, and whenever
  the value it computed is NaN or an infinity. So for an audio input that converts to a
  buffer of at least one sample, all of them zero, and a threshold above 0, \<open>analyze\<close>
  with \<open>invert = False\<close> returns \<open>True\<close>.
\<close>

theorem rms_nonfinite_is_zero:
  "(elems t = [] \<or> \<not> is_finite (raw_rms t) \<longrightarrow> calculate_rms t = Finite 0) \<and>
   (convert_to_tensor torch_tensor audio = Inr t \<and> elems t \<noteq> [] \<and>
    (\<forall>v\<in>set (elems t). v = Finite 0) \<and> flt_less (Finite 0) threshold
      \<longrightarrow> analyze torch_tensor audio threshold False = Inr True)"
proof (intro conjI impI)
  assume "elems t = [] \<or> \<not> is_finite (raw_rms t)"
  then show "calculate_rms t = Finite 0"
  proof
    assume "elems t = []"
    then have "raw_rms t = NaN" by (simp add: raw_rms_def fmean_def fsum_def)
    then show ?thesis by (simp add: calculate_rms_def)
  next
    assume "\<not> is_finite (raw_rms t)"
    then show ?thesis by (cases "raw_rms t") (auto simp: calculate_rms_def Let_def)
  qed
next
  assume h: "convert_to_tensor torch_tensor audio = Inr t \<and> elems t \<noteq> [] \<and>
    (\<forall>v\<in>set (elems t). v = Finite 0) \<and> flt_less (Finite 0) threshold"
  then have z: "\<forall>v\<in>set (map (\<lambda>v. fmul (dtype t) v v) (elems t)). v = Finite 0" by auto
  have "fsum (dtype t) (map (\<lambda>v. fmul (dtype t) v v) (elems t)) = Finite 0"
    unfolding fsum_def by (rule fsum_zeros [OF z])
  moreover have "length (elems t) \<noteq> 0" using h by simp
  ultimately have "raw_rms t = Finite 0" by (simp add: raw_rms_def fmean_def)
  then have "calculate_rms t = Finite 0" by (simp add: calculate_rms_def)
  with h show "analyze torch_tensor audio threshold False = Inr True"
    by (simp add: analyze_def)
qed

theorem rms_nonfinite_is_zero_witness:
  "calculate_rms \<lparr>shape = [0], elems = [], dtype = exact\<rparr> = Finite 0 \<and>
   analyze (\<lambda>a::unit audio. None)
     (TorchTensor \<lparr>shape = [3], elems = [Finite 0, Finite 0, Finite 0], dtype = exact\<rparr>)
     (Finite (1 / 100)) False
     = Inr True"
  using rms_nonfinite_is_zero [of "\<lparr>shape = [0], elems = [], dtype = exact\<rparr>"
      "\<lambda>a::unit audio. None"
      "TorchTensor \<lparr>shape = [0], elems = [], dtype = exact\<rparr>" "Finite 1"]
    rms_nonfinite_is_zero [of "\<lparr>shape = [3], elems = [Finite 0, Finite 0, Finite 0], dtype = exact\<rparr>"
      "\<lambda>a::unit audio. None"
      "TorchTensor \<lparr>shape = [3], elems = [Finite 0, Finite 0, Finite 0], dtype = exact\<rparr>"
      "Finite (1 / 100)"]
  by simp

text \<open>
  C8. When \<open>apply\<close> with \<open>enabled = True\<close> succeeds, the mapping it returns is a new
  object that agrees with the input mapping on every key but \<open>humo_audio_emb\<close>; under
  that key it holds a new tensor object; and every object that was in the store before
  the call, the input mapping and the original tensor among them, is unchanged.
\<close>

theorem apply_frame:
  assumes "apply_node self h a True = Inr (h', a')"
  shows "\<exists>d d' xm y. deref h a = Some (DictObj d) \<and> deref h' a' = Some (DictObj d') \<and>
           (\<forall>k. k \<noteq> key \<longrightarrow> d' k = d k) \<and>
           d' key = Some xm \<and> deref h' xm = Some (TensorObj y) \<and>
           length h \<le> a' \<and> length h \<le> xm \<and> xm \<noteq> a' \<and>
           (\<forall>b. b < length h \<longrightarrow> deref h' b = deref h b)"
proof -
  from assms obtain d where d: "deref h a = Some (DictObj d)"
    by (auto simp: apply_node_def split: option.splits obj.splits)
  from assms d obtain xa where xa: "d key = Some xa"
    by (auto simp: apply_node_def alloc_def split: option.splits)
  from assms d xa obtain x where x: "deref (h @ [DictObj d]) xa = Some (TensorObj x)"
    by (auto simp: apply_node_def alloc_def split: option.splits obj.splits)
  from assms d xa x obtain y where y: "edit_tensor self x = Inr y"
    by (auto simp: apply_node_def alloc_def split: sum.splits)
  let ?d' = "d(key \<mapsto> Suc (length h))"
  have r: "h' = (h @ [DictObj d, TensorObj y])[length h := DictObj ?d']" "a' = length h"
    using assms d xa x y by (auto simp: apply_node_def alloc_def)
  have 1: "deref h' a' = Some (DictObj ?d')" by (simp add: r deref_def nth_append)
  have 2: "deref h' (Suc (length h)) = Some (TensorObj y)"
    by (simp add: r deref_def nth_append)
  have 3: "\<forall>b. b < length h \<longrightarrow> deref h' b = deref h b"
    by (simp add: r deref_def nth_append)
  show ?thesis
    apply (rule exI [of _ d], rule exI [of _ ?d'], rule exI [of _ "Suc (length h)"],
        rule exI [of _ y])
    using d 1 2 3 by (simp add: r)
qed

theorem apply_frame_witness:
  "\<exists>d d' xm y.
     deref [DictObj (Map.empty(''humo_audio_emb'' \<mapsto> 1, ''other'' \<mapsto> 2)),
            TensorObj \<lparr>shape = [1, 5, 1],
                       elems = [Finite 1, Finite 1, Finite 1, Finite 1, Finite 1],
                       dtype = exact\<rparr>,
            OtherObj] 0 = Some (DictObj d) \<and>
     deref [DictObj (Map.empty(''humo_audio_emb'' \<mapsto> 1, ''other'' \<mapsto> 2)),
            TensorObj \<lparr>shape = [1, 5, 1],
                       elems = [Finite 1, Finite 1, Finite 1, Finite 1, Finite 1],
                       dtype = exact\<rparr>,
            OtherObj,
            DictObj (Map.empty(''humo_audio_emb'' \<mapsto> 4, ''other'' \<mapsto> 2)),
            TensorObj \<lparr>shape = [1, 5, 1],
                       elems = [Finite 4, Finite 4, Finite (1 / 2), Finite (1 / 100),
                                Finite (1 / 100)],
                       dtype = exact\<rparr>] 3 = Some (DictObj d') \<and>
     (\<forall>k. k \<noteq> key \<longrightarrow> d' k = d k) \<and>
     d' key = Some xm \<and>
     deref [DictObj (Map.empty(''humo_audio_emb'' \<mapsto> 1, ''other'' \<mapsto> 2)),
            TensorObj \<lparr>shape = [1, 5, 1],
                       elems = [Finite 1, Finite 1, Finite 1, Finite 1, Finite 1],
                       dtype = exact\<rparr>,
            OtherObj,
            DictObj (Map.empty(''humo_audio_emb'' \<mapsto> 4, ''other'' \<mapsto> 2)),
            TensorObj \<lparr>shape = [1, 5, 1],
                       elems = [Finite 4, Finite 4, Finite (1 / 2), Finite (1 / 100),
                                Finite (1 / 100)],
                       dtype = exact\<rparr>] xm = Some (TensorObj y) \<and>
     length [DictObj (Map.empty(''humo_audio_emb'' \<mapsto> 1, ''other'' \<mapsto> 2)),
            TensorObj \<lparr>shape = [1, 5, 1],
                       elems = [Finite 1, Finite 1, Finite 1, Finite 1, Finite 1],
                       dtype = exact\<rparr>,
            OtherObj] \<le> 3 \<and>
     length [DictObj (Map.empty(''humo_audio_emb'' \<mapsto> 1, ''other'' \<mapsto> 2)),
            TensorObj \<lparr>shape = [1, 5, 1],
                       elems = [Finite 1, Finite 1, Finite 1, Finite 1, Finite 1],
                       dtype = exact\<rparr>,
            OtherObj] \<le> xm \<and>
     xm \<noteq> 3 \<and>
     (\<forall>b. b < length [DictObj (Map.empty(''humo_audio_emb'' \<mapsto> 1, ''other'' \<mapsto> 2)),
            TensorObj \<lparr>shape = [1, 5, 1],
                       elems = [Finite 1, Finite 1, Finite 1, Finite 1, Finite 1],
                       dtype = exact\<rparr>,
            OtherObj] \<longrightarrow>
          deref [DictObj (Map.empty(''humo_audio_emb'' \<mapsto> 1, ''other'' \<mapsto> 2)),
            TensorObj \<lparr>shape = [1, 5, 1],
                       elems = [Finite 1, Finite 1, Finite 1, Finite 1, Finite 1],
                       dtype = exact\<rparr>,
            OtherObj,
            DictObj (Map.empty(''humo_audio_emb'' \<mapsto> 4, ''other'' \<mapsto> 2)),
            TensorObj \<lparr>shape = [1, 5, 1],
                       elems = [Finite 4, Finite 4, Finite (1 / 2), Finite (1 / 100),
                                Finite (1 / 100)],
                       dtype = exact\<rparr>] b =
          deref [DictObj (Map.empty(''humo_audio_emb'' \<mapsto> 1, ''other'' \<mapsto> 2)),
            TensorObj \<lparr>shape = [1, 5, 1],
                       elems = [Finite 1, Finite 1, Finite 1, Finite 1, Finite 1],
                       dtype = exact\<rparr>,
            OtherObj] b)"
  by (rule apply_frame [OF apply_example])

text \<open>
  C9. With \<open>enabled = True\<close> and no key \<open>humo_audio_emb\<close> in the input mapping,
  \<open>apply\<close> fails with the missing-key error: the result is the error, with no store
  and no mapping.
\<close>

theorem apply_missing_key:
  assumes "deref h a = Some (DictObj d)" and "d key = None"
  shows "apply_node self h a True = Inl MissingKeyError"
  using assms by (simp add: apply_node_def alloc_def)

theorem apply_missing_key_witness:
  "apply_node HuMoLipsyncSuppress [DictObj (Map.empty(''other'' \<mapsto> 1)), OtherObj] 0 True
     = Inl MissingKeyError"
proof -
  have a: "deref [DictObj (Map.empty(''other'' \<mapsto> 1)), OtherObj] 0
             = Some (DictObj (Map.empty(''other'' \<mapsto> 1)))"
    by (simp add: deref_def)
  have b: "(Map.empty(''other'' \<mapsto> (1::nat))) key = None"
    by (simp add: key_def)
  show ?thesis by (rule apply_missing_key [OF a b])
qed

text \<open>
  C10. With \<open>enabled = False\<close> nothing is validated: on a mapping that lacks the key,
  or whose tensor has the wrong rank or band count, \<open>apply\<close> returns its input, while
  the same call with \<open>enabled = True\<close> fails with the missing-key error or the shape
  error.
\<close>

theorem apply_disabled_no_validation:
  assumes "deref h a = Some (DictObj d)"
    and "d key = None \<or>
         (\<exists>xa x. d key = Some xa \<and> deref h xa = Some (TensorObj x) \<and>
                 (ndim x \<noteq> 3 \<or> shape x ! 1 \<noteq> 5))"
  shows "apply_node self h a False = Inr (h, a) \<and>
         (apply_node self h a True = Inl MissingKeyError \<or>
          (\<exists>s. apply_node self h a True = Inl (ShapeError s)))"
proof -
  have "apply_node self h a False = Inr (h, a)" by (simp add: apply_node_def)
  moreover from assms(2) have "apply_node self h a True = Inl MissingKeyError \<or>
          (\<exists>s. apply_node self h a True = Inl (ShapeError s))"
  proof
    assume "d key = None"
    with assms(1) show ?thesis by (simp add: apply_node_def alloc_def)
  next
    assume "\<exists>xa x. d key = Some xa \<and> deref h xa = Some (TensorObj x) \<and>
                 (ndim x \<noteq> 3 \<or> shape x ! 1 \<noteq> 5)"
    then obtain xa x where *: "d key = Some xa" "deref h xa = Some (TensorObj x)"
      "ndim x \<noteq> 3 \<or> shape x ! 1 \<noteq> 5" by blast
    show ?thesis
      using apply_node_enabled [OF assms(1) *(1,2), of self] edit_tensor_bad [OF *(3), of self]
      by simp
  qed
  ultimately show ?thesis by simp
qed

theorem apply_disabled_no_validation_witness:
  "apply_node HuMoLipsyncSuppress [DictObj (Map.empty(''other'' \<mapsto> 1)), OtherObj] 0 False
     = Inr ([DictObj (Map.empty(''other'' \<mapsto> 1)), OtherObj], 0) \<and>
   apply_node HuMoLipsyncSuppress
     [DictObj (Map.empty(''humo_audio_emb'' \<mapsto> 1)),
      TensorObj \<lparr>shape = [10, 3, 1280], elems = replicate 38400 (Finite 0), dtype = exact\<rparr>] 0 False
     = Inr ([DictObj (Map.empty(''humo_audio_emb'' \<mapsto> 1)),
             TensorObj \<lparr>shape = [10, 3, 1280], elems = replicate 38400 (Finite 0), dtype = exact\<rparr>], 0) \<and>
   (apply_node HuMoLipsyncSuppress [DictObj (Map.empty(''other'' \<mapsto> 1)), OtherObj] 0 True
      = Inl MissingKeyError \<or>
    (\<exists>s. apply_node HuMoLipsyncSuppress [DictObj (Map.empty(''other'' \<mapsto> 1)), OtherObj] 0 True
      = Inl (ShapeError s))) \<and>
   (apply_node HuMoLipsyncSuppress
     [DictObj (Map.empty(''humo_audio_emb'' \<mapsto> 1)),
      TensorObj \<lparr>shape = [10, 3, 1280], elems = replicate 38400 (Finite 0), dtype = exact\<rparr>] 0 True
      = Inl MissingKeyError \<or>
    (\<exists>s. apply_node HuMoLipsyncSuppress
     [DictObj (Map.empty(''humo_audio_emb'' \<mapsto> 1)),
      TensorObj \<lparr>shape = [10, 3, 1280], elems = replicate 38400 (Finite 0), dtype = exact\<rparr>] 0 True
      = Inl (ShapeError s)))"
proof -
  let ?d1 = "Map.empty(''other'' \<mapsto> (1::nat))"
  let ?h1 = "[DictObj ?d1, OtherObj]"
  have a1: "deref ?h1 0 = Some (DictObj ?d1)" by (simp add: deref_def)
  have b1: "?d1 key = None \<or>
         (\<exists>xa x. ?d1 key = Some xa \<and> deref ?h1 xa = Some (TensorObj x) \<and>
                 (ndim x \<noteq> 3 \<or> shape x ! 1 \<noteq> 5))"
    by (simp add: key_def)
  let ?x = "\<lparr>shape = [10, 3, 1280], elems = replicate 38400 (Finite 0), dtype = exact\<rparr>"
  let ?d2 = "Map.empty(''humo_audio_emb'' \<mapsto> (1::nat))"
  let ?h2 = "[DictObj ?d2, TensorObj ?x]"
  have a2: "deref ?h2 0 = Some (DictObj ?d2)" by (simp add: deref_def)
  have "?d2 key = Some 1 \<and> deref ?h2 1 = Some (TensorObj ?x) \<and>
                 (ndim ?x \<noteq> 3 \<or> shape ?x ! 1 \<noteq> 5)"
    by (simp add: key_def deref_def ndim_def)
  then have b2: "?d2 key = None \<or>
         (\<exists>xa x. ?d2 key = Some xa \<and> deref ?h2 xa = Some (TensorObj x) \<and>
                 (ndim x \<noteq> 3 \<or> shape x ! 1 \<noteq> 5))"
    by blast
  from apply_disabled_no_validation [OF a1 b1, of HuMoLipsyncSuppress]
    apply_disabled_no_validation [OF a2 b2, of HuMoLipsyncSuppress]
  show ?thesis by blast
qed

end
